theory Spec2Isabelle
  imports Main "HOL-Library.AList" "HOL-Library.Sublist"
begin

section \<open>Inventory system: values, exceptions, log records, files\<close>

text \<open>
  The module \<^verbatim>\<open>inventory_system.py\<close> keeps one global, \<^verbatim>\<open>STOCK_DATA\<close>, and
  reads and writes it from its functions. \<^verbatim>\<open>load_data\<close> assigns to the global
  whatever \<^verbatim>\<open>json.load\<close> returns, so the global is not always a dictionary of
  integers: it holds any value a JSON document decodes to. The values are modelled as
  the Python values JSON decodes to, without floating-point numbers. A dictionary is an
  association list in insertion order; its keys are strings, because \<^verbatim>\<open>add_item\<close>
  stores a key only after \<^verbatim>\<open>isinstance(item, str)\<close> and a JSON object has string
  keys only. A Python string is a list of characters with code points below 256.
\<close>

datatype pyval =
    PNone
  | PBool bool
  | PInt int
  | PStr string
  | PList "pyval list"
  | PDict "(string \<times> pyval) list"

text \<open>\<^verbatim>\<open>isinstance(x, str)\<close> and \<^verbatim>\<open>isinstance(x, int)\<close>; \<^verbatim>\<open>bool\<close> is a
  subclass of \<^verbatim>\<open>int\<close>, so \<^verbatim>\<open>True\<close> and \<^verbatim>\<open>False\<close> pass the second test.\<close>

fun isinstance_str :: "pyval \<Rightarrow> bool" where
  "isinstance_str (PStr s) = True"
| "isinstance_str v = False"

fun isinstance_int :: "pyval \<Rightarrow> bool" where
  "isinstance_int (PInt n) = True"
| "isinstance_int (PBool b) = True"
| "isinstance_int v = False"

text \<open>The number an \<^verbatim>\<open>int\<close> instance stands for in arithmetic and comparison
  (\<^verbatim>\<open>True\<close> is 1, \<^verbatim>\<open>False\<close> is 0). It is only read on \<^verbatim>\<open>int\<close> instances.\<close>

fun int_of :: "pyval \<Rightarrow> int" where
  "int_of (PInt n) = n"
| "int_of (PBool b) = (if b then 1 else 0)"
| "int_of v = 0"

datatype exn =
    FileNotFoundError
  | OSError
  | ValueError
  | JSONDecodeError
  | TypeError
  | AttributeError
  | KeyError string

text \<open>\<^verbatim>\<open>IOError\<close> is an alias of \<^verbatim>\<open>OSError\<close>, and \<^verbatim>\<open>FileNotFoundError\<close> is one of
  its subclasses; the constructor \<^const>\<open>OSError\<close> stands for the other subclasses
  (\<^verbatim>\<open>NotADirectoryError\<close>, \<^verbatim>\<open>IsADirectoryError\<close>, \<^verbatim>\<open>PermissionError\<close>, a name that is
  too long). \<^const>\<open>ValueError\<close> stands for the \<^verbatim>\<open>ValueError\<close> instances
  other than the decode error of \<^verbatim>\<open>json\<close>: a path with a NUL character, an integer
  beyond the interpreter's limit of digits. No handler of the module names
  \<^verbatim>\<open>ValueError\<close>, so the two are never confused by the code.\<close>

fun is_IOError :: "exn \<Rightarrow> bool" where
  "is_IOError FileNotFoundError = True"
| "is_IOError OSError = True"
| "is_IOError e = False"

text \<open>\<^verbatim>\<open>a + b\<close>, \<^verbatim>\<open>a - b\<close> and \<^verbatim>\<open>a < b\<close> where the right operand is an
  \<^verbatim>\<open>int\<close> instance (the type check of the callers has passed, or the operand is the
  integer threshold): defined between \<^verbatim>\<open>int\<close> instances, \<^verbatim>\<open>TypeError\<close> when the
  left operand is \<^verbatim>\<open>None\<close>, a string, a list or a dictionary.\<close>

fun py_add :: "pyval \<Rightarrow> pyval \<Rightarrow> exn + pyval" where
  "py_add a b = (if isinstance_int a then Inr (PInt (int_of a + int_of b)) else Inl TypeError)"

fun py_sub :: "pyval \<Rightarrow> pyval \<Rightarrow> exn + pyval" where
  "py_sub a b = (if isinstance_int a then Inr (PInt (int_of a - int_of b)) else Inl TypeError)"

fun py_lt :: "pyval \<Rightarrow> int \<Rightarrow> exn + bool" where
  "py_lt a t = (if isinstance_int a then Inr (int_of a < t) else Inl TypeError)"

datatype level = INFO | WARNING | ERROR

text \<open>A log record keeps the format string and its arguments apart, as the
  \<^verbatim>\<open>logging\<close> module does (\<open>FmtExc\<close> when the argument is an exception), or the
  exception object passed as the message. The records are collected in the order of
  the calls; the root logger is configured at level \<^verbatim>\<open>INFO\<close>, so none is dropped.\<close>

datatype logmsg = Fmt string "pyval list" | FmtExc string exn | Exc exn

type_synonym logrecord = "level \<times> logmsg"

text \<open>
  A file holds a text. The text is represented by what \<^verbatim>\<open>json.load\<close> makes of it: the
  value of a well-formed document, or nothing (an empty or cut-off text among others).
\<close>

datatype ftext = JsonText pyval | Malformed

text \<open>
  What the file system does at a path is kept as the path's behaviour, so that the
  model covers the paths where the code meets an error as well as the regular files.
  \<^item> \<open>reading\<close> is the outcome of \<^verbatim>\<open>open(path, "r")\<close> followed by reading the file: the
    exception raised, or the text.
  \<^item> \<open>writing\<close> is the outcome of \<^verbatim>\<open>open(path, "w")\<close> followed by writing and closing:
    \<open>Refuses e\<close>, the file cannot be opened, \<open>e\<close> is raised and nothing changes (a
    missing directory raises \<^verbatim>\<open>FileNotFoundError\<close>, a read-only location an
    \<^verbatim>\<open>OSError\<close>, a NUL character in the path \<^verbatim>\<open>ValueError\<close>);
    \<open>Swallows r\<close>, the write completes and the path reads as \<open>r\<close> afterwards, whatever
    was written (a device such as \<^verbatim>\<open>/dev/null\<close>, a file that may be written and not
    read);
    \<open>Stores\<close>, the write completes and the path afterwards reads as the text written
    (a regular file that can be created or replaced, and read).
  \<^item> \<open>is_file\<close> tells whether a file exists at the path. Where none exists,
    \<open>reading\<close> is an exception: \<^verbatim>\<open>FileNotFoundError\<close> in a directory that can be
    searched, another one otherwise (\<^verbatim>\<open>NotADirectoryError\<close> below a regular file).
  Paths not listed in \<open>nodes\<close> behave as \<open>elsewhere\<close> says. Nothing but the operations
  of the module changes the file system, and a write that has started is not cut short
  by the file system (a disk that fills up while the file is written is not covered).
\<close>

datatype writing = Refuses exn | Swallows "exn + ftext" | Stores

record node =
  is_file :: bool
  reading :: "exn + ftext"
  writing :: writing

record filesystem =
  nodes :: "(string \<times> node) list"
  elsewhere :: node

definition node_at :: "filesystem \<Rightarrow> string \<Rightarrow> node" where
  "node_at fs file_path =
     (case map_of (nodes fs) file_path of None \<Rightarrow> elsewhere fs | Some n \<Rightarrow> n)"

definition set_node :: "string \<Rightarrow> node \<Rightarrow> filesystem \<Rightarrow> filesystem" where
  "set_node file_path n fs = fs\<lparr>nodes := AList.update file_path n (nodes fs)\<rparr>"

text \<open>The path of a file that does not exist in a directory where it can be created,
  and the path of a regular file with a given text.\<close>

definition vacant :: node where
  "vacant = \<lparr>is_file = False, reading = Inl FileNotFoundError, writing = Stores\<rparr>"

definition regular :: "ftext \<Rightarrow> node" where
  "regular t = \<lparr>is_file = True, reading = Inr t, writing = Stores\<rparr>"

text \<open>
  The state of the program: the global, the log records emitted so far, the file
  system, and the interpreter's limit on the number of digits of an integer converted
  to or from text (\<^verbatim>\<open>sys.get_int_max_str_digits()\<close>: 0 for no limit, 4300 by default
  where the interpreter has the limit, never between 1 and 639).
\<close>

record world =
  STOCK_DATA :: pyval
  log :: "logrecord list"
  disk :: filesystem
  max_str_digits :: nat

definition logging :: "level \<Rightarrow> logmsg \<Rightarrow> world \<Rightarrow> world" where
  "logging lv m w = w\<lparr>log := log w @ [(lv, m)]\<rparr>"

text \<open>
  \<^verbatim>\<open>json.dump\<close> and \<^verbatim>\<open>json.load\<close> are library functions, taken by their contract: the
  document written for a value decodes to that value. Both convert every integer of
  the value (not \<^verbatim>\<open>True\<close> or \<^verbatim>\<open>False\<close>) between number and decimal text, which raises
  \<^verbatim>\<open>ValueError\<close> for an integer with more digits than the limit. No value of
  \<^typ>\<open>pyval\<close> makes \<^verbatim>\<open>json.dump\<close> raise \<^verbatim>\<open>TypeError\<close>. \<open>ndigits n\<close> is the number of
  decimal digits of \<open>n\<close>.
\<close>

fun ndigits :: "nat \<Rightarrow> nat" where
  "ndigits n = (if n < 10 then 1 else Suc (ndigits (n div 10)))"

declare ndigits.simps [simp del]

fun digits_ok :: "nat \<Rightarrow> pyval \<Rightarrow> bool" where
  "digits_ok limit (PInt n) = (limit = 0 \<or> ndigits (nat \<bar>n\<bar>) \<le> limit)"
| "digits_ok limit (PList xs) = list_all (digits_ok limit) xs"
| "digits_ok limit (PDict d) = list_all (\<lambda>kv. digits_ok limit (snd kv)) d"
| "digits_ok limit v = True"

definition json_load :: "nat \<Rightarrow> ftext \<Rightarrow> exn + pyval" where
  "json_load limit t =
     (case t of
        Malformed \<Rightarrow> Inl JSONDecodeError
      | JsonText v \<Rightarrow> if digits_ok limit v then Inr v else Inl ValueError)"

definition json_dump :: "nat \<Rightarrow> pyval \<Rightarrow> exn + ftext" where
  "json_dump limit v = (if digits_ok limit v then Inr (JsonText v) else Inl ValueError)"

text \<open>
  \<^verbatim>\<open>with open(file_path, "r", encoding="utf-8") as file: json.load(file)\<close>: the
  exception of \<^verbatim>\<open>open\<close>, or what \<^verbatim>\<open>json.load\<close> makes of the text read.
\<close>

definition read_json :: "string \<Rightarrow> nat \<Rightarrow> filesystem \<Rightarrow> exn + pyval" where
  "read_json file_path limit fs =
     (case reading (node_at fs file_path) of
        Inl e \<Rightarrow> Inl e
      | Inr t \<Rightarrow> json_load limit t)"

text \<open>
  \<^verbatim>\<open>with open(file_path, "w", encoding="utf-8") as file: json.dump(v, file, indent=4)\<close>:
  the exception raised, if any, and the file system afterwards. A refused \<^verbatim>\<open>open\<close>
  changes nothing. Once the file is open it exists and is truncated; \<^verbatim>\<open>json.dump\<close>
  writes the document piece by piece, so an integer beyond the limit leaves a cut-off
  text behind when the \<^verbatim>\<open>ValueError\<close> leaves the block.
\<close>

definition write_json :: "string \<Rightarrow> pyval \<Rightarrow> nat \<Rightarrow> filesystem \<Rightarrow> exn option \<times> filesystem" where
  "write_json file_path v limit fs =
     (let n = node_at fs file_path;
          becomes = (\<lambda>r. set_node file_path (n\<lparr>is_file := True, reading := r\<rparr>) fs)
      in case writing n of
           Refuses e \<Rightarrow> (Some e, fs)
         | Swallows r \<Rightarrow>
             (case json_dump limit v of
                Inl e' \<Rightarrow> (Some e', becomes r)
              | Inr t \<Rightarrow> (None, becomes r))
         | Stores \<Rightarrow>
             (case json_dump limit v of
                Inl e' \<Rightarrow> (Some e', becomes (Inr Malformed))
              | Inr t \<Rightarrow> (None, becomes (Inr t))))"

section \<open>The operations\<close>

text \<open>
  An operation returns the world it leaves (\<open>Inr\<close>), or raises: \<open>Inl (e, w)\<close> is the
  exception \<open>e\<close> leaving the function in the world \<open>w\<close>.
\<close>

definition INVENTORY_FILE :: string where
  "INVENTORY_FILE = ''inventory.json''"

definition not_found :: "string \<Rightarrow> exn" where
  "not_found item = KeyError (''Item '' @ [CHR 0x27] @ item @ [CHR 0x27] @ '' not found'')"

text \<open>\<^verbatim>\<open>add_item(item, qty)\<close> with the default \<^verbatim>\<open>logs=None\<close>: the list the function
  then creates is dropped at return, and the line appended to it (the time and the
  quantity as text) is not modelled. A value without the method \<^verbatim>\<open>get\<close> in
  \<^verbatim>\<open>STOCK_DATA\<close> raises \<^verbatim>\<open>AttributeError\<close>; the sum is computed before the
  assignment, so a raise leaves the mapping as it was.\<close>

definition add_item :: "pyval \<Rightarrow> pyval \<Rightarrow> world \<Rightarrow> (exn \<times> world) + world" where
  "add_item item qty w =
     (if \<not> isinstance_str item \<or> \<not> isinstance_int qty then
        Inr (logging ERROR
              (Fmt (''Invalid item or quantity type for item '' @ [CHR 0x27] @ ''%s'' @ [CHR 0x27])
                 [item]) w)
      else
        (case (item, STOCK_DATA w) of
           (PStr name, PDict d) \<Rightarrow>
             (case py_add (case map_of d name of None \<Rightarrow> PInt 0 | Some v \<Rightarrow> v) qty of
                Inl e \<Rightarrow> Inl (e, w)
              | Inr s \<Rightarrow>
                  Inr (logging INFO (Fmt ''Added %d of %s'' [qty, item])
                        (w\<lparr>STOCK_DATA := PDict (AList.update name s d)\<rparr>)))
         | _ \<Rightarrow> Inl (AttributeError, w)))"

text \<open>\<^verbatim>\<open>item not in STOCK_DATA\<close>: key membership in a dictionary, element membership
  in a list, substring test in a string, \<^verbatim>\<open>TypeError\<close> otherwise.\<close>

fun py_contains :: "pyval \<Rightarrow> string \<Rightarrow> exn + bool" where
  "py_contains (PDict d) name = Inr (name \<in> set (map fst d))"
| "py_contains (PList xs) name = Inr (PStr name \<in> set xs)"
| "py_contains (PStr s) name = Inr (sublist name s)"
| "py_contains v name = Inl TypeError"

text \<open>The body of the \<^verbatim>\<open>try\<close> block of \<^verbatim>\<open>remove_item\<close>: the membership test,
  the assignment \<^verbatim>\<open>STOCK_DATA[item] -= qty\<close>, then the deletion when the stored
  difference is at most 0. Indexing a list or a string with a string raises
  \<^verbatim>\<open>TypeError\<close>; the difference is computed before it is stored, so a raise leaves
  the mapping as it was.\<close>

definition remove_body :: "string \<Rightarrow> pyval \<Rightarrow> world \<Rightarrow> exn + world" where
  "remove_body name qty w =
     (case py_contains (STOCK_DATA w) name of
        Inl e \<Rightarrow> Inl e
      | Inr present \<Rightarrow>
          if \<not> present then Inl (not_found name)
          else
            (case STOCK_DATA w of
               PDict d \<Rightarrow>
                 (case map_of d name of
                    None \<Rightarrow> Inl (KeyError name)
                  | Some v \<Rightarrow>
                      (case py_sub v qty of
                         Inl e \<Rightarrow> Inl e
                       | Inr s \<Rightarrow>
                           (let d' = AList.update name s d
                            in Inr (logging INFO (Fmt ''Removed %d of %s'' [qty, PStr name])
                                     (w\<lparr>STOCK_DATA :=
                                          PDict (if int_of s \<le> 0 then AList.delete name d'
                                                 else d')\<rparr>)))))
             | _ \<Rightarrow> Inl TypeError))"

text \<open>\<^verbatim>\<open>remove_item\<close>: the type check, then the body under
  \<^verbatim>\<open>except KeyError\<close>; every other exception leaves the function. (The last branch
  is not reached: the type check has passed.)\<close>

definition remove_item :: "pyval \<Rightarrow> pyval \<Rightarrow> world \<Rightarrow> (exn \<times> world) + world" where
  "remove_item item qty w =
     (if \<not> isinstance_str item \<or> \<not> isinstance_int qty then
        Inr (logging ERROR (Fmt ''Invalid item or quantity type for removal.'' []) w)
      else
        (case item of
           PStr name \<Rightarrow>
             (case remove_body name qty w of
                Inl (KeyError m) \<Rightarrow> Inr (logging WARNING (Exc (KeyError m)) w)
              | Inl e \<Rightarrow> Inl (e, w)
              | Inr w' \<Rightarrow> Inr w')
         | _ \<Rightarrow> Inl (TypeError, w)))"

definition get_qty :: "string \<Rightarrow> world \<Rightarrow> exn + pyval" where
  "get_qty item w =
     (case STOCK_DATA w of
        PDict d \<Rightarrow> Inr (case map_of d item of None \<Rightarrow> PInt 0 | Some v \<Rightarrow> v)
      | _ \<Rightarrow> Inl AttributeError)"

text \<open>\<^verbatim>\<open>load_data\<close>: the assignment and the \<^verbatim>\<open>INFO\<close> record when the block
  succeeds; the handler for \<^verbatim>\<open>FileNotFoundError\<close>, which logs before it assigns the
  empty dictionary; every other exception leaves the function, nothing assigned.\<close>

definition load_data :: "string \<Rightarrow> world \<Rightarrow> (exn \<times> world) + world" where
  "load_data file_path w =
     (case read_json file_path (max_str_digits w) (disk w) of
        Inr v \<Rightarrow>
          Inr (logging INFO (Fmt ''Loaded inventory from %s'' [PStr file_path])
                (w\<lparr>STOCK_DATA := v\<rparr>))
      | Inl e \<Rightarrow>
          if e = FileNotFoundError then
            Inr ((logging WARNING
                    (Fmt ''Inventory file not found, starting with empty data.'' []) w)
                  \<lparr>STOCK_DATA := PDict []\<rparr>)
          else Inl (e, w))"

text \<open>\<^verbatim>\<open>save_data\<close>: the \<^verbatim>\<open>INFO\<close> record when the block succeeds; the handler for
  \<^verbatim>\<open>IOError\<close> and \<^verbatim>\<open>TypeError\<close>, which logs the exception; every other exception
  leaves the function. The mapping is never assigned.\<close>

definition save_data :: "string \<Rightarrow> world \<Rightarrow> (exn \<times> world) + world" where
  "save_data file_path w =
     (case write_json file_path (STOCK_DATA w) (max_str_digits w) (disk w) of
        (None, fs) \<Rightarrow>
          Inr (logging INFO (Fmt ''Saved inventory to %s'' [PStr file_path]) (w\<lparr>disk := fs\<rparr>))
      | (Some e, fs) \<Rightarrow>
          if is_IOError e \<or> e = TypeError then
            Inr (logging ERROR (FmtExc ''Failed to save inventory: %s'' e) (w\<lparr>disk := fs\<rparr>))
          else Inl (e, w\<lparr>disk := fs\<rparr>))"

text \<open>The comprehension of \<^verbatim>\<open>check_low_items\<close>: one comparison for each entry, in
  the order of the dictionary; a comparison that raises ends it.\<close>

fun low_items :: "(string \<times> pyval) list \<Rightarrow> int \<Rightarrow> exn + string list" where
  "low_items [] threshold = Inr []"
| "low_items ((item, qty) # rest) threshold =
     (case py_lt qty threshold of
        Inl e \<Rightarrow> Inl e
      | Inr b \<Rightarrow>
          (case low_items rest threshold of
             Inl e \<Rightarrow> Inl e
           | Inr items \<Rightarrow> Inr (if b then item # items else items)))"

definition check_low_items :: "int \<Rightarrow> world \<Rightarrow> exn + string list" where
  "check_low_items threshold w =
     (case STOCK_DATA w of
        PDict d \<Rightarrow> low_items d threshold
      | _ \<Rightarrow> Inl AttributeError)"

section \<open>Sequences of operations\<close>

text \<open>
  A caller runs the operations one after the other, as \<^verbatim>\<open>main\<close> does, and nothing
  catches an exception that leaves one of them: the run ends there, in the world the
  exception left.
\<close>

datatype op =
    AddItem pyval pyval
  | RemoveItem pyval pyval
  | SaveData string
  | LoadData string

fun step :: "op \<Rightarrow> world \<Rightarrow> (exn \<times> world) + world" where
  "step (AddItem item qty) w = add_item item qty w"
| "step (RemoveItem item qty) w = remove_item item qty w"
| "step (SaveData file_path) w = save_data file_path w"
| "step (LoadData file_path) w = load_data file_path w"

fun run :: "op list \<Rightarrow> world \<Rightarrow> (exn \<times> world) + world" where
  "run [] w = Inr w"
| "run (x # xs) w = (case step x w of Inl ew \<Rightarrow> Inl ew | Inr w' \<Rightarrow> run xs w')"

text \<open>The world a run ends in, at its last call or at the exception that stops it.\<close>

fun final :: "(exn \<times> world) + world \<Rightarrow> world" where
  "final (Inl (e, w)) = w"
| "final (Inr w) = w"

text \<open>The module as loaded: \<^verbatim>\<open>STOCK_DATA = {}\<close>, nothing logged, the default limit of
  digits. On the empty disk no file exists and every path can be created.\<close>

definition initial :: "filesystem \<Rightarrow> world" where
  "initial fs = \<lparr>STOCK_DATA = PDict [], log = [], disk = fs, max_str_digits = 4300\<rparr>"

definition empty_disk :: filesystem where
  "empty_disk = \<lparr>nodes = [], elsewhere = vacant\<rparr>"

text \<open>The calls of \<^verbatim>\<open>main\<close> that change the mapping or the files (the three
  \<^verbatim>\<open>print\<close> calls write to standard output only).\<close>

definition main_ops :: "op list" where
  "main_ops =
     [AddItem (PStr ''apple'') (PInt 10),
      AddItem (PStr ''banana'') (PInt (- 2)),
      AddItem (PInt 123) (PStr ''ten''),
      RemoveItem (PStr ''apple'') (PInt 3),
      RemoveItem (PStr ''orange'') (PInt 1),
      SaveData INVENTORY_FILE,
      LoadData INVENTORY_FILE]"

section \<open>Predicates of the specification\<close>

text \<open>An entry with a quantity at or below 0, which the invariant of the
  specification excludes.\<close>

fun has_nonpositive :: "pyval \<Rightarrow> bool" where
  "has_nonpositive (PDict d) = list_ex (\<lambda>kv. isinstance_int (snd kv) \<and> int_of (snd kv) \<le> 0) d"
| "has_nonpositive v = False"

text \<open>
  The two calls that can bring such an entry in: \<^verbatim>\<open>add_item\<close> when the sum it stores
  is at or below 0, and \<^verbatim>\<open>load_data\<close> when the document it decodes has such an entry.
  \<open>brings_none x w\<close> says that the call \<open>x\<close>, made in the world \<open>w\<close>, is neither; it
  holds of every \<^verbatim>\<open>remove_item\<close> and \<^verbatim>\<open>save_data\<close> call.
\<close>

fun brings_none :: "op \<Rightarrow> world \<Rightarrow> bool" where
  "brings_none (AddItem item qty) w =
     (case (item, STOCK_DATA w) of
        (PStr name, PDict d) \<Rightarrow>
          (let held = (case map_of d name of None \<Rightarrow> PInt 0 | Some v \<Rightarrow> v)
           in \<not> (isinstance_int qty \<and> isinstance_int held \<and> int_of held + int_of qty \<le> 0))
      | _ \<Rightarrow> True)"
| "brings_none (LoadData file_path) w =
     (case read_json file_path (max_str_digits w) (disk w) of
        Inl e \<Rightarrow> True
      | Inr v \<Rightarrow> \<not> has_nonpositive v)"
| "brings_none x w = True"

text \<open>\<open>admissible xs w\<close>: no call of the run \<open>xs\<close>, started in the world \<open>w\<close>, brings
  such an entry in.\<close>

fun admissible :: "op list \<Rightarrow> world \<Rightarrow> bool" where
  "admissible [] w = True"
| "admissible (x # xs) w =
     (brings_none x w \<and> (case step x w of Inl ew \<Rightarrow> True | Inr w' \<Rightarrow> admissible xs w'))"

section \<open>Type validation\<close>

text \<open>
  Claim C7. When the name is not a string or the quantity is not an \<^verbatim>\<open>int\<close> instance,
  \<^verbatim>\<open>add_item\<close> returns with one record of level \<^verbatim>\<open>ERROR\<close> added to the log and
  nothing else changed, and so does \<^verbatim>\<open>remove_item\<close>: the mapping and the files are
  those of the world the call started in. This holds whatever \<^verbatim>\<open>STOCK_DATA\<close> holds.
\<close>

theorem invalid_types_leave_stock:
  assumes "\<not> (isinstance_str item \<and> isinstance_int qty)"
  shows "add_item item qty w =
           Inr (w\<lparr>log := log w @
                  [(ERROR,
                    Fmt (''Invalid item or quantity type for item '' @ [CHR 0x27] @ ''%s'' @ [CHR 0x27])
                      [item])]\<rparr>)
       \<and> remove_item item qty w =
           Inr (w\<lparr>log := log w @
                  [(ERROR, Fmt ''Invalid item or quantity type for removal.'' [])]\<rparr>)"
  using assms by (auto simp: add_item_def remove_item_def logging_def)

text \<open>The call \<^verbatim>\<open>add_item(123, "ten")\<close> of \<^verbatim>\<open>main\<close>, on the empty mapping.\<close>

theorem invalid_types_leave_stock_witness:
  "\<not> (isinstance_str (PInt 123) \<and> isinstance_int (PStr ''ten''))
   \<and> add_item (PInt 123) (PStr ''ten'') (initial empty_disk) =
       Inr \<lparr>STOCK_DATA = PDict [],
            log = [(ERROR,
                    Fmt (''Invalid item or quantity type for item '' @ [CHR 0x27] @ ''%s'' @ [CHR 0x27])
                      [PInt 123])],
            disk = empty_disk, max_str_digits = 4300\<rparr>
   \<and> remove_item (PInt 123) (PStr ''ten'') (initial empty_disk) =
       Inr \<lparr>STOCK_DATA = PDict [],
            log = [(ERROR, Fmt ''Invalid item or quantity type for removal.'' [])],
            disk = empty_disk, max_str_digits = 4300\<rparr>"
proof -
  have h: "\<not> (isinstance_str (PInt 123) \<and> isinstance_int (PStr ''ten''))" by simp
  show ?thesis
    using h invalid_types_leave_stock [OF h, of "initial empty_disk"]
    by (simp add: initial_def)
qed

section \<open>Removing an absent item\<close>

text \<open>
  Claim C6. When \<^verbatim>\<open>STOCK_DATA\<close> is a dictionary without the key \<open>name\<close>, then for
  every \<^verbatim>\<open>int\<close> instance \<open>qty\<close> the call \<^verbatim>\<open>remove_item(name, qty)\<close> returns (the
  \<^verbatim>\<open>KeyError\<close> is caught), the mapping and the files are unchanged, and the log has
  one more record, of level \<^verbatim>\<open>WARNING\<close>, carrying the "not found" exception.
\<close>

theorem remove_absent_warns:
  assumes "STOCK_DATA w = PDict d" and "name \<notin> fst ` set d" and "isinstance_int qty"
  shows "remove_item (PStr name) qty w =
           Inr (w\<lparr>log := log w @ [(WARNING, Exc (not_found name))]\<rparr>)"
  using assms by (simp add: remove_item_def remove_body_def logging_def not_found_def)

text \<open>The call \<^verbatim>\<open>remove_item("orange", 1)\<close> of \<^verbatim>\<open>main\<close>.\<close>

theorem remove_absent_warns_witness:
  "STOCK_DATA \<lparr>STOCK_DATA = PDict [(''apple'', PInt 7)], log = [], disk = empty_disk, max_str_digits = 4300\<rparr>
     = PDict [(''apple'', PInt 7)]
   \<and> ''orange'' \<notin> fst ` set [(''apple'', PInt 7)]
   \<and> isinstance_int (PInt 1)
   \<and> remove_item (PStr ''orange'') (PInt 1)
        \<lparr>STOCK_DATA = PDict [(''apple'', PInt 7)], log = [], disk = empty_disk, max_str_digits = 4300\<rparr> =
      Inr \<lparr>STOCK_DATA = PDict [(''apple'', PInt 7)],
           log = [(WARNING, Exc (not_found ''orange''))],
           disk = empty_disk, max_str_digits = 4300\<rparr>"
proof -
  let ?w = "\<lparr>STOCK_DATA = PDict [(''apple'', PInt 7)], log = [], disk = empty_disk, max_str_digits = 4300\<rparr>"
  have h1: "STOCK_DATA ?w = PDict [(''apple'', PInt 7)]" by simp
  have h2: "''orange'' \<notin> fst ` set [(''apple'', PInt 7)]" by simp
  have h3: "isinstance_int (PInt 1)" by simp
  show ?thesis
    using h1 h2 h3 remove_absent_warns [OF h1 h2 h3] by simp
qed

section \<open>Loading\<close>

text \<open>
  Claim C8, as the code has it. When \<^verbatim>\<open>open\<close> fails at the path, what \<^verbatim>\<open>load_data\<close>
  does depends on the exception. \<^verbatim>\<open>FileNotFoundError\<close> (no such file or directory) is
  handled: the call returns, \<^verbatim>\<open>STOCK_DATA\<close> is the empty dictionary afterwards and the
  log has one more record, of level \<^verbatim>\<open>WARNING\<close>. Every other exception leaves the
  function, with the mapping, the log and the files as they were.
\<close>

theorem load_after_failed_open:
  assumes "reading (node_at (disk w) file_path) = Inl e"
  shows "load_data file_path w =
           (if e = FileNotFoundError then
              Inr (w\<lparr>STOCK_DATA := PDict [],
                     log := log w @
                       [(WARNING, Fmt ''Inventory file not found, starting with empty data.'' [])]\<rparr>)
            else Inl (e, w))"
  using assms by (simp add: load_data_def read_json_def logging_def)

text \<open>A path without a file, in a directory where it could be created.\<close>

theorem load_after_failed_open_witness:
  "reading (node_at (disk \<lparr>STOCK_DATA = PDict [(''apple'', PInt 7)], log = [], disk = empty_disk,
                           max_str_digits = 4300\<rparr>) ''inventory.json'') = Inl FileNotFoundError
   \<and> load_data ''inventory.json''
        \<lparr>STOCK_DATA = PDict [(''apple'', PInt 7)], log = [], disk = empty_disk,
         max_str_digits = 4300\<rparr> =
      Inr \<lparr>STOCK_DATA = PDict [],
           log = [(WARNING, Fmt ''Inventory file not found, starting with empty data.'' [])],
           disk = empty_disk, max_str_digits = 4300\<rparr>"
proof -
  let ?w = "\<lparr>STOCK_DATA = PDict [(''apple'', PInt 7)], log = [], disk = empty_disk,
            max_str_digits = 4300\<rparr>"
  have h: "reading (node_at (disk ?w) ''inventory.json'') = Inl FileNotFoundError"
    by (simp add: node_at_def empty_disk_def vacant_def)
  show ?thesis
    using h load_after_failed_open [OF h] by simp
qed

text \<open>
  Claim C8, as stated for every path that names no file, fails: at the path
  \<^verbatim>\<open>f.txt/x.json\<close>, where \<^verbatim>\<open>f.txt\<close> is a regular file, no file exists and
  \<^verbatim>\<open>open\<close> raises \<^verbatim>\<open>NotADirectoryError\<close>, an \<^verbatim>\<open>OSError\<close> that \<^verbatim>\<open>load_data\<close> does
  not handle. The call raises and the mapping is not reset.
\<close>

theorem load_under_regular_file_raises:
  "\<not> is_file (node_at
       \<lparr>nodes = [(''f.txt'', regular Malformed),
                 (''f.txt/x.json'',
                  \<lparr>is_file = False, reading = Inl OSError, writing = Refuses OSError\<rparr>)],
        elsewhere = vacant\<rparr> ''f.txt/x.json'')
   \<and> load_data ''f.txt/x.json''
        \<lparr>STOCK_DATA = PDict [(''apple'', PInt 7)], log = [],
         disk = \<lparr>nodes = [(''f.txt'', regular Malformed),
                          (''f.txt/x.json'',
                           \<lparr>is_file = False, reading = Inl OSError, writing = Refuses OSError\<rparr>)],
                 elsewhere = vacant\<rparr>,
         max_str_digits = 4300\<rparr> =
      Inl (OSError,
        \<lparr>STOCK_DATA = PDict [(''apple'', PInt 7)], log = [],
         disk = \<lparr>nodes = [(''f.txt'', regular Malformed),
                          (''f.txt/x.json'',
                           \<lparr>is_file = False, reading = Inl OSError, writing = Refuses OSError\<rparr>)],
                 elsewhere = vacant\<rparr>,
         max_str_digits = 4300\<rparr>)"
  by (simp add: load_data_def read_json_def node_at_def)

text \<open>
  Claim C9. When the file at the path can be read and its text is not a well-formed
  JSON document, \<^verbatim>\<open>load_data\<close> does not return: the decode error of \<^verbatim>\<open>json.load\<close>
  leaves the function, since its only handler is for \<^verbatim>\<open>FileNotFoundError\<close>. Nothing is
  logged and the mapping is not assigned.
\<close>

theorem load_malformed_raises:
  assumes "reading (node_at (disk w) file_path) = Inr Malformed"
  shows "load_data file_path w = Inl (JSONDecodeError, w)"
  using assms by (simp add: load_data_def read_json_def json_load_def)

theorem load_malformed_raises_witness:
  "reading (node_at (disk (initial \<lparr>nodes = [(''inventory.json'', regular Malformed)],
                                    elsewhere = vacant\<rparr>)) ''inventory.json'') = Inr Malformed
   \<and> load_data ''inventory.json''
        (initial \<lparr>nodes = [(''inventory.json'', regular Malformed)], elsewhere = vacant\<rparr>) =
      Inl (JSONDecodeError,
           initial \<lparr>nodes = [(''inventory.json'', regular Malformed)], elsewhere = vacant\<rparr>)"
proof -
  let ?w = "initial \<lparr>nodes = [(''inventory.json'', regular Malformed)], elsewhere = vacant\<rparr>"
  have h: "reading (node_at (disk ?w) ''inventory.json'') = Inr Malformed"
    by (simp add: initial_def node_at_def regular_def)
  show ?thesis
    using h load_malformed_raises [OF h] by simp
qed

section \<open>Adding and removing stock\<close>

text \<open>What the two mutating operations return on a dictionary whose entry for the
  name, when there is one, is an \<^verbatim>\<open>int\<close> instance.\<close>

lemma key_of_map_of: "map_of d name = Some v \<Longrightarrow> name \<in> fst ` set d"
  by (metis map_of_SomeD fst_conv image_eqI)

lemma keys_delete: "name \<notin> fst ` set (AList.delete name d)"
  by (simp add: AList.delete_eq image_iff)


lemma remove_item_result:
  assumes "STOCK_DATA w = PDict d" and "map_of d name = Some v"
    and "isinstance_int v" and "isinstance_int qty"
  shows "remove_item (PStr name) qty w =
           Inr (logging INFO (Fmt ''Removed %d of %s'' [qty, PStr name])
                 (w\<lparr>STOCK_DATA :=
                      PDict (if int_of v - int_of qty \<le> 0 then AList.delete name d
                             else AList.update name (PInt (int_of v - int_of qty)) d)\<rparr>))"
proof -
  have "name \<in> fst ` set d" using assms(2) by (rule key_of_map_of)
  then show ?thesis
    using assms
    by (simp add: remove_item_def remove_body_def Let_def AList.delete_update_same)
qed



text \<open>
  Claim C4. When \<open>name\<close> is a key of the dictionary with an \<^verbatim>\<open>int\<close> instance \<open>v\<close>
  stored, then for every \<^verbatim>\<open>int\<close> instance \<open>qty\<close> the call \<^verbatim>\<open>remove_item(name, qty)\<close>
  returns; when \<open>v - qty\<close> is at most 0 the name is no longer a key and
  \<^verbatim>\<open>get_qty(name)\<close> is 0, otherwise the stored quantity is \<open>v - qty\<close>. The other
  entries are unchanged.
\<close>

theorem remove_item_decrements:
  assumes "STOCK_DATA w = PDict d" and "map_of d name = Some v"
    and "isinstance_int v" and "isinstance_int qty"
  shows "\<exists>w' d'. remove_item (PStr name) qty w = Inr w' \<and> STOCK_DATA w' = PDict d'
           \<and> (if int_of v - int_of qty \<le> 0
              then name \<notin> fst ` set d' \<and> get_qty name w' = Inr (PInt 0)
              else map_of d' name = Some (PInt (int_of v - int_of qty))
                 \<and> get_qty name w' = Inr (PInt (int_of v - int_of qty)))
           \<and> (\<forall>k. k \<noteq> name \<longrightarrow> map_of d' k = map_of d k)"
proof -
  let ?s = "int_of v - int_of qty"
  let ?d' = "if ?s \<le> 0 then AList.delete name d else AList.update name (PInt ?s) d"
  let ?w' = "logging INFO (Fmt ''Removed %d of %s'' [qty, PStr name]) (w\<lparr>STOCK_DATA := PDict ?d'\<rparr>)"
  have rem: "remove_item (PStr name) qty w = Inr ?w'"
    using assms by (rule remove_item_result)
  have stock': "STOCK_DATA ?w' = PDict ?d'"
    by (simp add: logging_def)
  have others: "\<forall>k. k \<noteq> name \<longrightarrow> map_of ?d' k = map_of d k"
    by (simp add: AList.update_conv' AList.delete_conv')
  have entry: "if ?s \<le> 0
              then name \<notin> fst ` set ?d' \<and> get_qty name ?w' = Inr (PInt 0)
              else map_of ?d' name = Some (PInt ?s) \<and> get_qty name ?w' = Inr (PInt ?s)"
  proof (cases "?s \<le> 0")
    case True
    then show ?thesis
      using keys_delete [of name d]
      by (simp add: get_qty_def logging_def AList.delete_conv')
  next
    case False
    then show ?thesis
      by (simp add: get_qty_def logging_def AList.update_conv')
  qed
  from rem stock' entry others show ?thesis by blast
qed

theorem remove_item_decrements_witness:
  "STOCK_DATA \<lparr>STOCK_DATA = PDict [(''apple'', PInt 10)], log = [], disk = empty_disk, max_str_digits = 4300\<rparr>
     = PDict [(''apple'', PInt 10)]
   \<and> map_of [(''apple'', PInt 10)] ''apple'' = Some (PInt 10)
   \<and> isinstance_int (PInt 10) \<and> isinstance_int (PInt 12)
   \<and> (\<exists>w' d'. remove_item (PStr ''apple'') (PInt 12)
          \<lparr>STOCK_DATA = PDict [(''apple'', PInt 10)], log = [], disk = empty_disk, max_str_digits = 4300\<rparr> = Inr w'
        \<and> STOCK_DATA w' = PDict d'
        \<and> ''apple'' \<notin> fst ` set d' \<and> get_qty ''apple'' w' = Inr (PInt 0))"
proof -
  let ?w = "\<lparr>STOCK_DATA = PDict [(''apple'', PInt 10)], log = [], disk = empty_disk, max_str_digits = 4300\<rparr>"
  have h1: "STOCK_DATA ?w = PDict [(''apple'', PInt 10)]" by simp
  have h2: "map_of [(''apple'', PInt 10)] ''apple'' = Some (PInt 10)" by simp
  have h3: "isinstance_int (PInt 10)" by simp
  have h4: "isinstance_int (PInt 12)" by simp
  show ?thesis
    using h1 h2 h3 h4 remove_item_decrements [OF h1 h2 h3 h4] by auto
qed

text \<open>
  Claim C10, as the code has it. \<^verbatim>\<open>remove_item\<close> has no test of the sign of its
  quantity. For a key with an \<^verbatim>\<open>int\<close> instance \<open>v\<close> stored and an \<^verbatim>\<open>int\<close> instance
  \<open>qty\<close> below 0, the call stores \<open>v + |qty|\<close> in place and keeps the entry when that
  sum is above 0, and deletes the entry when it is not.
\<close>

theorem remove_negative_adds:
  assumes "STOCK_DATA w = PDict d" and "map_of d name = Some v"
    and "isinstance_int v" and "isinstance_int qty" and "int_of qty < 0"
  shows "remove_item (PStr name) qty w =
           Inr (logging INFO (Fmt ''Removed %d of %s'' [qty, PStr name])
                 (w\<lparr>STOCK_DATA :=
                      PDict (if 0 < int_of v + \<bar>int_of qty\<bar>
                             then AList.update name (PInt (int_of v + \<bar>int_of qty\<bar>)) d
                             else AList.delete name d)\<rparr>))"
proof -
  have abs: "\<bar>int_of qty\<bar> = - int_of qty"
    using assms(5) by simp
  show ?thesis
    unfolding abs using remove_item_result [OF assms(1-4)] by (simp add: not_le)
qed

theorem remove_negative_adds_witness:
  "STOCK_DATA \<lparr>STOCK_DATA = PDict [(''apple'', PInt 7)], log = [], disk = empty_disk, max_str_digits = 4300\<rparr>
     = PDict [(''apple'', PInt 7)]
   \<and> map_of [(''apple'', PInt 7)] ''apple'' = Some (PInt 7)
   \<and> isinstance_int (PInt 7) \<and> isinstance_int (PInt (- 3)) \<and> int_of (PInt (- 3)) < 0
   \<and> remove_item (PStr ''apple'') (PInt (- 3))
        \<lparr>STOCK_DATA = PDict [(''apple'', PInt 7)], log = [], disk = empty_disk, max_str_digits = 4300\<rparr> =
      Inr \<lparr>STOCK_DATA = PDict [(''apple'', PInt 10)],
           log = [(INFO, Fmt ''Removed %d of %s'' [PInt (- 3), PStr ''apple''])],
           disk = empty_disk, max_str_digits = 4300\<rparr>"
proof -
  let ?w = "\<lparr>STOCK_DATA = PDict [(''apple'', PInt 7)], log = [], disk = empty_disk, max_str_digits = 4300\<rparr>"
  have h1: "STOCK_DATA ?w = PDict [(''apple'', PInt 7)]" by simp
  have h2: "map_of [(''apple'', PInt 7)] ''apple'' = Some (PInt 7)" by simp
  have h3: "isinstance_int (PInt 7)" by simp
  have h4: "isinstance_int (PInt (- 3))" by simp
  have h5: "int_of (PInt (- 3)) < 0" by simp
  show ?thesis
    using h1 h2 h3 h4 h5 remove_negative_adds [OF h1 h2 h3 h4 h5] by (simp add: logging_def)
qed

text \<open>
  Claim C10, as stated, fails: the entry is not always kept. After
  \<^verbatim>\<open>add_item("banana", -2)\<close> on the empty mapping the key is present with \<open>-2\<close>
  stored, and \<^verbatim>\<open>remove_item("banana", -1)\<close> then stores \<open>-1\<close> and deletes the entry.
\<close>

theorem remove_negative_deletes_banana:
  "run [AddItem (PStr ''banana'') (PInt (- 2)), RemoveItem (PStr ''banana'') (PInt (- 1))]
       (initial empty_disk) =
     Inr \<lparr>STOCK_DATA = PDict [],
          log = [(INFO, Fmt ''Added %d of %s'' [PInt (- 2), PStr ''banana'']),
                 (INFO, Fmt ''Removed %d of %s'' [PInt (- 1), PStr ''banana''])],
          disk = empty_disk, max_str_digits = 4300\<rparr>"
  by (simp add: initial_def add_item_def remove_item_def remove_body_def logging_def)

section \<open>Low stock\<close>

lemma low_items_int:
  "list_all (\<lambda>kv. isinstance_int (snd kv)) d \<Longrightarrow>
   low_items d t = Inr (map fst (filter (\<lambda>kv. int_of (snd kv) < t) d))"
  by (induction d) auto

lemma filter_keys_distinct:
  "distinct (map fst d) \<Longrightarrow>
   map fst (filter (\<lambda>kv. P (snd kv)) d) = filter (\<lambda>k. \<exists>v. map_of d k = Some v \<and> P v) (map fst d)"
proof (induction d)
  case Nil
  then show ?case by simp
next
  case (Cons kv d)
  obtain k v where kv: "kv = (k, v)" by (cases kv)
  from Cons.prems kv have fresh: "k \<notin> set (map fst d)" and dist: "distinct (map fst d)"
    by simp_all
  have "filter (\<lambda>k'. \<exists>v'. map_of (kv # d) k' = Some v' \<and> P v') (map fst d)
        = filter (\<lambda>k'. \<exists>v'. map_of d k' = Some v' \<and> P v') (map fst d)"
    using fresh by (intro filter_cong) (auto simp: kv)
  then show ?case
    using Cons.IH [OF dist] by (simp add: kv)
qed

text \<open>
  Claim C5. When \<^verbatim>\<open>STOCK_DATA\<close> is a dictionary of \<^verbatim>\<open>int\<close> instances,
  \<^verbatim>\<open>check_low_items(threshold)\<close> returns the keys whose stored quantity is below the
  threshold, and no other, in the order of the dictionary: it is the list of keys with
  the others filtered out.
\<close>

theorem check_low_items_exact:
  assumes "STOCK_DATA w = PDict d" and "distinct (map fst d)"
    and "list_all (\<lambda>kv. isinstance_int (snd kv)) d"
  shows "check_low_items threshold w =
           Inr (filter (\<lambda>k. \<exists>v. map_of d k = Some v \<and> int_of v < threshold) (map fst d))"
  using assms
  by (simp add: check_low_items_def low_items_int filter_keys_distinct [where P = "\<lambda>v. int_of v < threshold"])

text \<open>The stock \<^verbatim>\<open>{apple: 3, banana: 10}\<close> with threshold 5.\<close>

theorem check_low_items_exact_witness:
  "STOCK_DATA \<lparr>STOCK_DATA = PDict [(''apple'', PInt 3), (''banana'', PInt 10)], log = [],
               disk = empty_disk, max_str_digits = 4300\<rparr> = PDict [(''apple'', PInt 3), (''banana'', PInt 10)]
   \<and> distinct (map fst [(''apple'', PInt 3), (''banana'', PInt 10)])
   \<and> list_all (\<lambda>kv. isinstance_int (snd kv)) [(''apple'', PInt 3), (''banana'', PInt 10)]
   \<and> check_low_items 5
        \<lparr>STOCK_DATA = PDict [(''apple'', PInt 3), (''banana'', PInt 10)], log = [],
         disk = empty_disk, max_str_digits = 4300\<rparr> = Inr [''apple'']"
proof -
  let ?d = "[(''apple'', PInt 3), (''banana'', PInt 10)]"
  let ?w = "\<lparr>STOCK_DATA = PDict ?d, log = [], disk = empty_disk, max_str_digits = 4300\<rparr>"
  have h1: "STOCK_DATA ?w = PDict ?d" by simp
  have h2: "distinct (map fst ?d)" by simp
  have h3: "list_all (\<lambda>kv. isinstance_int (snd kv)) ?d" by simp
  show ?thesis
    using h1 h2 h3 check_low_items_exact [OF h1 h2 h3, of 5] by simp
qed

section \<open>Saving, then loading\<close>

text \<open>
  Claim C2, as the code has it. At a path whose file, once written, reads back as the
  text written (a regular file that can be created or replaced, and read), and with
  every integer of the mapping within the interpreter's limit of digits,
  \<^verbatim>\<open>save_data(path)\<close> returns, \<^verbatim>\<open>load_data(path)\<close> after it returns, and
  \<^verbatim>\<open>STOCK_DATA\<close> is then what it was before the two calls. This holds for every value
  of \<^verbatim>\<open>STOCK_DATA\<close>, the mappings from names to integers among them.
\<close>

theorem save_load_roundtrip:
  assumes "writing (node_at (disk w) file_path) = Stores"
    and "digits_ok (max_str_digits w) (STOCK_DATA w)"
  shows "\<exists>w1 w2. save_data file_path w = Inr w1 \<and> load_data file_path w1 = Inr w2
           \<and> STOCK_DATA w2 = STOCK_DATA w"
  using assms
  by (simp add: save_data_def load_data_def write_json_def read_json_def json_dump_def
        json_load_def set_node_def node_at_def logging_def AList.update_conv' Let_def)

theorem save_load_roundtrip_witness:
  "writing (node_at (disk
      \<lparr>STOCK_DATA = PDict [(''apple'', PInt 7), (''banana'', PInt (- 2))], log = [],
       disk = empty_disk, max_str_digits = 4300\<rparr>) ''inventory.json'') = Stores
   \<and> digits_ok (max_str_digits
      \<lparr>STOCK_DATA = PDict [(''apple'', PInt 7), (''banana'', PInt (- 2))], log = [],
       disk = empty_disk, max_str_digits = 4300\<rparr>)
        (PDict [(''apple'', PInt 7), (''banana'', PInt (- 2))])
   \<and> (\<exists>w1 w2. save_data ''inventory.json''
         \<lparr>STOCK_DATA = PDict [(''apple'', PInt 7), (''banana'', PInt (- 2))], log = [],
          disk = empty_disk, max_str_digits = 4300\<rparr> = Inr w1
        \<and> load_data ''inventory.json'' w1 = Inr w2
        \<and> STOCK_DATA w2 = PDict [(''apple'', PInt 7), (''banana'', PInt (- 2))])"
proof -
  let ?w = "\<lparr>STOCK_DATA = PDict [(''apple'', PInt 7), (''banana'', PInt (- 2))], log = [],
            disk = empty_disk, max_str_digits = 4300\<rparr>"
  have h1: "writing (node_at (disk ?w) ''inventory.json'') = Stores"
    by (simp add: empty_disk_def node_at_def vacant_def)
  have h2: "digits_ok (max_str_digits ?w) (STOCK_DATA ?w)"
    by (simp add: ndigits.simps)
  show ?thesis
    using h1 h2 save_load_roundtrip [OF h1 h2] by simp
qed

text \<open>A power of ten has one digit more than its exponent.\<close>

lemma ndigits_power10: "ndigits (10 ^ k) = Suc k"
proof (induction k)
  case 0
  show ?case by (simp add: ndigits.simps)
next
  case (Suc k)
  have "\<not> (10::nat) ^ Suc k < 10" by simp
  then have "ndigits (10 ^ Suc k) = Suc (ndigits (10 ^ Suc k div 10))"
    by (subst ndigits.simps) simp
  with Suc show ?case by simp
qed

lemma big_not_ok: "0 < k \<Longrightarrow> \<not> digits_ok k (PInt (10 ^ k))"
proof -
  assume k: "0 < k"
  have a: "\<bar>(10::int) ^ k\<bar> = 10 ^ k"
    by simp
  have b: "nat ((10::int) ^ k) = (10::nat) ^ k"
    by (simp add: nat_power_eq)
  have "ndigits (nat \<bar>(10::int) ^ k\<bar>) = Suc k"
    unfolding a b by (rule ndigits_power10)
  then have "\<not> ndigits (nat \<bar>(10::int) ^ k\<bar>) \<le> k"
    by linarith
  then show ?thesis using k unfolding digits_ok.simps by blast
qed

text \<open>
  Claim C2, as stated for every mapping and path, fails in three ways.
  \<^item> Where the path cannot be opened for writing (a directory that is read-only),
    \<^verbatim>\<open>save_data\<close> catches the \<^verbatim>\<open>OSError\<close>, logs it and returns with no file written;
    \<^verbatim>\<open>load_data\<close> then finds no file and assigns the empty dictionary, which is not
    the mapping \<^verbatim>\<open>{apple: 10}\<close> the calls started with.
  \<^item> Where the path swallows what is written (\<^verbatim>\<open>/dev/null\<close>), \<^verbatim>\<open>save_data\<close> returns
    and logs success; \<^verbatim>\<open>load_data\<close> then reads an empty text and raises the decode
    error.
  \<^item> Where the mapping holds an integer of 4301 digits and the limit is 4300,
    \<^verbatim>\<open>save_data\<close> raises \<^verbatim>\<open>ValueError\<close>, which it does not handle, and leaves a cut-off
    file behind.
\<close>

theorem save_then_load_differs:
  "save_data ''inventory.json''
     \<lparr>STOCK_DATA = PDict [(''apple'', PInt 10)], log = [],
      disk = \<lparr>nodes = [], elsewhere = \<lparr>is_file = False, reading = Inl FileNotFoundError,
                                         writing = Refuses OSError\<rparr>\<rparr>,
      max_str_digits = 4300\<rparr> =
     Inr \<lparr>STOCK_DATA = PDict [(''apple'', PInt 10)],
          log = [(ERROR, FmtExc ''Failed to save inventory: %s'' OSError)],
          disk = \<lparr>nodes = [], elsewhere = \<lparr>is_file = False, reading = Inl FileNotFoundError,
                                             writing = Refuses OSError\<rparr>\<rparr>,
          max_str_digits = 4300\<rparr>
   \<and> load_data ''inventory.json''
     \<lparr>STOCK_DATA = PDict [(''apple'', PInt 10)],
      log = [(ERROR, FmtExc ''Failed to save inventory: %s'' OSError)],
      disk = \<lparr>nodes = [], elsewhere = \<lparr>is_file = False, reading = Inl FileNotFoundError,
                                         writing = Refuses OSError\<rparr>\<rparr>,
      max_str_digits = 4300\<rparr> =
     Inr \<lparr>STOCK_DATA = PDict [],
          log = [(ERROR, FmtExc ''Failed to save inventory: %s'' OSError),
                 (WARNING, Fmt ''Inventory file not found, starting with empty data.'' [])],
          disk = \<lparr>nodes = [], elsewhere = \<lparr>is_file = False, reading = Inl FileNotFoundError,
                                             writing = Refuses OSError\<rparr>\<rparr>,
          max_str_digits = 4300\<rparr>
   \<and> save_data ''/dev/null''
     \<lparr>STOCK_DATA = PDict [(''apple'', PInt 10)], log = [],
      disk = \<lparr>nodes = [(''/dev/null'', \<lparr>is_file = True, reading = Inr Malformed,
                                         writing = Swallows (Inr Malformed)\<rparr>)],
              elsewhere = vacant\<rparr>,
      max_str_digits = 4300\<rparr> =
     Inr \<lparr>STOCK_DATA = PDict [(''apple'', PInt 10)],
          log = [(INFO, Fmt ''Saved inventory to %s'' [PStr ''/dev/null''])],
          disk = \<lparr>nodes = [(''/dev/null'', \<lparr>is_file = True, reading = Inr Malformed,
                                             writing = Swallows (Inr Malformed)\<rparr>)],
                  elsewhere = vacant\<rparr>,
          max_str_digits = 4300\<rparr>
   \<and> load_data ''/dev/null''
     \<lparr>STOCK_DATA = PDict [(''apple'', PInt 10)],
      log = [(INFO, Fmt ''Saved inventory to %s'' [PStr ''/dev/null''])],
      disk = \<lparr>nodes = [(''/dev/null'', \<lparr>is_file = True, reading = Inr Malformed,
                                         writing = Swallows (Inr Malformed)\<rparr>)],
              elsewhere = vacant\<rparr>,
      max_str_digits = 4300\<rparr> =
     Inl (JSONDecodeError,
       \<lparr>STOCK_DATA = PDict [(''apple'', PInt 10)],
        log = [(INFO, Fmt ''Saved inventory to %s'' [PStr ''/dev/null''])],
        disk = \<lparr>nodes = [(''/dev/null'', \<lparr>is_file = True, reading = Inr Malformed,
                                           writing = Swallows (Inr Malformed)\<rparr>)],
                elsewhere = vacant\<rparr>,
        max_str_digits = 4300\<rparr>)
   \<and> save_data ''inventory.json''
     \<lparr>STOCK_DATA = PDict [(''apple'', PInt (10 ^ 4300))], log = [], disk = empty_disk,
      max_str_digits = 4300\<rparr> =
     Inl (ValueError,
       \<lparr>STOCK_DATA = PDict [(''apple'', PInt (10 ^ 4300))], log = [],
        disk = \<lparr>nodes = [(''inventory.json'', \<lparr>is_file = True, reading = Inr Malformed,
                                               writing = Stores\<rparr>)],
                elsewhere = vacant\<rparr>,
        max_str_digits = 4300\<rparr>)"
proof -
  have big: "\<not> digits_ok 4300 (PDict [(''apple'', PInt (10 ^ 4300))])"
  proof -
    have "\<not> digits_ok 4300 (PInt (10 ^ 4300))"
      by (rule big_not_ok) simp
    then show ?thesis
      by (simp only: digits_ok.simps(3) list.pred_inject snd_conv simp_thms)
  qed
  have unwritable_and_sink:
    "save_data ''inventory.json''
     \<lparr>STOCK_DATA = PDict [(''apple'', PInt 10)], log = [],
      disk = \<lparr>nodes = [], elsewhere = \<lparr>is_file = False, reading = Inl FileNotFoundError,
                                         writing = Refuses OSError\<rparr>\<rparr>,
      max_str_digits = 4300\<rparr> =
     Inr \<lparr>STOCK_DATA = PDict [(''apple'', PInt 10)],
          log = [(ERROR, FmtExc ''Failed to save inventory: %s'' OSError)],
          disk = \<lparr>nodes = [], elsewhere = \<lparr>is_file = False, reading = Inl FileNotFoundError,
                                             writing = Refuses OSError\<rparr>\<rparr>,
          max_str_digits = 4300\<rparr>
   \<and> load_data ''inventory.json''
     \<lparr>STOCK_DATA = PDict [(''apple'', PInt 10)],
      log = [(ERROR, FmtExc ''Failed to save inventory: %s'' OSError)],
      disk = \<lparr>nodes = [], elsewhere = \<lparr>is_file = False, reading = Inl FileNotFoundError,
                                         writing = Refuses OSError\<rparr>\<rparr>,
      max_str_digits = 4300\<rparr> =
     Inr \<lparr>STOCK_DATA = PDict [],
          log = [(ERROR, FmtExc ''Failed to save inventory: %s'' OSError),
                 (WARNING, Fmt ''Inventory file not found, starting with empty data.'' [])],
          disk = \<lparr>nodes = [], elsewhere = \<lparr>is_file = False, reading = Inl FileNotFoundError,
                                             writing = Refuses OSError\<rparr>\<rparr>,
          max_str_digits = 4300\<rparr>
   \<and> save_data ''/dev/null''
     \<lparr>STOCK_DATA = PDict [(''apple'', PInt 10)], log = [],
      disk = \<lparr>nodes = [(''/dev/null'', \<lparr>is_file = True, reading = Inr Malformed,
                                         writing = Swallows (Inr Malformed)\<rparr>)],
              elsewhere = vacant\<rparr>,
      max_str_digits = 4300\<rparr> =
     Inr \<lparr>STOCK_DATA = PDict [(''apple'', PInt 10)],
          log = [(INFO, Fmt ''Saved inventory to %s'' [PStr ''/dev/null''])],
          disk = \<lparr>nodes = [(''/dev/null'', \<lparr>is_file = True, reading = Inr Malformed,
                                             writing = Swallows (Inr Malformed)\<rparr>)],
                  elsewhere = vacant\<rparr>,
          max_str_digits = 4300\<rparr>
   \<and> load_data ''/dev/null''
     \<lparr>STOCK_DATA = PDict [(''apple'', PInt 10)],
      log = [(INFO, Fmt ''Saved inventory to %s'' [PStr ''/dev/null''])],
      disk = \<lparr>nodes = [(''/dev/null'', \<lparr>is_file = True, reading = Inr Malformed,
                                         writing = Swallows (Inr Malformed)\<rparr>)],
              elsewhere = vacant\<rparr>,
      max_str_digits = 4300\<rparr> =
     Inl (JSONDecodeError,
       \<lparr>STOCK_DATA = PDict [(''apple'', PInt 10)],
        log = [(INFO, Fmt ''Saved inventory to %s'' [PStr ''/dev/null''])],
        disk = \<lparr>nodes = [(''/dev/null'', \<lparr>is_file = True, reading = Inr Malformed,
                                           writing = Swallows (Inr Malformed)\<rparr>)],
                elsewhere = vacant\<rparr>,
        max_str_digits = 4300\<rparr>)"
    by (simp add: save_data_def load_data_def write_json_def read_json_def json_dump_def
          json_load_def node_at_def set_node_def vacant_def logging_def Let_def ndigits.simps)
  have beyond_limit:
    "save_data ''inventory.json''
     \<lparr>STOCK_DATA = PDict [(''apple'', PInt (10 ^ 4300))], log = [], disk = empty_disk,
      max_str_digits = 4300\<rparr> =
     Inl (ValueError,
       \<lparr>STOCK_DATA = PDict [(''apple'', PInt (10 ^ 4300))], log = [],
        disk = \<lparr>nodes = [(''inventory.json'', \<lparr>is_file = True, reading = Inr Malformed,
                                               writing = Stores\<rparr>)],
                elsewhere = vacant\<rparr>,
        max_str_digits = 4300\<rparr>)"
    using big
    by (simp add: save_data_def write_json_def json_dump_def node_at_def set_node_def
          empty_disk_def vacant_def Let_def del: power_numeral digits_ok.simps)
  from unwritable_and_sink beyond_limit show ?thesis by blast
qed

section \<open>Quantities above 0\<close>

lemma list_ex_update:
  "\<not> list_ex P al \<Longrightarrow> \<not> P (k, v) \<Longrightarrow> \<not> list_ex P (AList.update k v al)"
  by (induction al) auto

lemma list_ex_delete:
  "\<not> list_ex P al \<Longrightarrow> \<not> list_ex P (AList.delete k al)"
  by (induction al) auto

lemma add_item_brings_none:
  assumes "\<not> has_nonpositive (STOCK_DATA w)" and "brings_none (AddItem item qty) w"
  shows "\<not> has_nonpositive (STOCK_DATA (final (add_item item qty w)))"
proof (cases "isinstance_str item \<and> isinstance_int qty")
  case False
  then show ?thesis
    using assms(1) by (auto simp: add_item_def logging_def)
next
  case True
  then obtain name where item: "item = PStr name" by (cases item) simp_all
  from True have q: "isinstance_int qty" by simp
  show ?thesis
  proof (cases "STOCK_DATA w")
    case (PDict d)
    let ?held = "case map_of d name of None \<Rightarrow> PInt 0 | Some v \<Rightarrow> v"
    show ?thesis
    proof (cases "isinstance_int ?held")
      case False
      then show ?thesis
        using assms(1) PDict q by (simp add: add_item_def item)
    next
      case held: True
      from assms(2) PDict q held have pos: "0 < int_of ?held + int_of qty"
        by (simp add: item Let_def)
      have none: "\<not> list_ex (\<lambda>kv. isinstance_int (snd kv) \<and> int_of (snd kv) \<le> 0) d"
        using assms(1) PDict by simp
      have "\<not> list_ex (\<lambda>kv. isinstance_int (snd kv) \<and> int_of (snd kv) \<le> 0)
               (AList.update name (PInt (int_of ?held + int_of qty)) d)"
        using none pos by (intro list_ex_update) simp_all
      then show ?thesis
        using PDict q held by (simp add: add_item_def item logging_def)
    qed
  qed (use assms(1) q in \<open>simp_all add: add_item_def item\<close>)
qed

lemma remove_body_brings_none:
  assumes "\<not> has_nonpositive (STOCK_DATA w)" and "remove_body name qty w = Inr w'"
  shows "\<not> has_nonpositive (STOCK_DATA w')"
proof (cases "STOCK_DATA w")
  case (PDict d)
  have none: "\<not> list_ex (\<lambda>kv. isinstance_int (snd kv) \<and> int_of (snd kv) \<le> 0) d"
    using assms(1) PDict by simp
  from assms(2) PDict obtain v where v: "map_of d name = Some v" and iv: "isinstance_int v"
    and w': "w' = logging INFO (Fmt ''Removed %d of %s'' [qty, PStr name])
              (w\<lparr>STOCK_DATA :=
                   PDict (if int_of v - int_of qty \<le> 0
                          then AList.delete name (AList.update name (PInt (int_of v - int_of qty)) d)
                          else AList.update name (PInt (int_of v - int_of qty)) d)\<rparr>)"
    by (auto simp: remove_body_def Let_def split: if_splits option.splits)
  show ?thesis
  proof (cases "int_of v - int_of qty \<le> 0")
    case True
    have "\<not> list_ex (\<lambda>kv. isinstance_int (snd kv) \<and> int_of (snd kv) \<le> 0) (AList.delete name d)"
      using none by (rule list_ex_delete)
    then show ?thesis
      using True by (simp add: w' logging_def AList.delete_update_same)
  next
    case False
    have "\<not> list_ex (\<lambda>kv. isinstance_int (snd kv) \<and> int_of (snd kv) \<le> 0)
             (AList.update name (PInt (int_of v - int_of qty)) d)"
      using none False by (intro list_ex_update) simp_all
    then show ?thesis
      using False by (simp add: w' logging_def)
  qed
qed (use assms(2) in \<open>auto simp: remove_body_def split: if_splits\<close>)

lemma remove_item_brings_none:
  assumes "\<not> has_nonpositive (STOCK_DATA w)"
  shows "\<not> has_nonpositive (STOCK_DATA (final (remove_item item qty w)))"
proof (cases "isinstance_str item \<and> isinstance_int qty")
  case False
  then show ?thesis
    using assms by (auto simp: remove_item_def logging_def)
next
  case True
  then obtain name where item: "item = PStr name" by (cases item) simp_all
  show ?thesis
  proof (cases "remove_body name qty w")
    case (Inl e)
    then show ?thesis
      using True assms by (cases e) (simp_all add: remove_item_def item logging_def)
  next
    case (Inr w')
    with assms have "\<not> has_nonpositive (STOCK_DATA w')"
      by (rule remove_body_brings_none)
    then show ?thesis
      using True Inr by (simp add: remove_item_def item)
  qed
qed

lemma save_data_keeps_stock: "STOCK_DATA (final (save_data file_path w)) = STOCK_DATA w"
  by (simp add: save_data_def logging_def split: prod.splits option.splits)

lemma load_data_brings_none:
  assumes "\<not> has_nonpositive (STOCK_DATA w)" and "brings_none (LoadData file_path) w"
  shows "\<not> has_nonpositive (STOCK_DATA (final (load_data file_path w)))"
  using assms by (simp add: load_data_def logging_def split: sum.splits)

lemma step_brings_none:
  assumes "\<not> has_nonpositive (STOCK_DATA w)" and "brings_none x w"
  shows "\<not> has_nonpositive (STOCK_DATA (final (step x w)))"
proof (cases x)
  case (AddItem item qty)
  with assms show ?thesis by (simp add: add_item_brings_none)
next
  case (RemoveItem item qty)
  with assms show ?thesis by (simp add: remove_item_brings_none)
next
  case (SaveData file_path)
  with assms show ?thesis by (simp add: save_data_keeps_stock)
next
  case (LoadData file_path)
  with assms show ?thesis by (simp add: load_data_brings_none)
qed

lemma run_brings_none:
  "\<not> has_nonpositive (STOCK_DATA w) \<Longrightarrow> admissible xs w \<Longrightarrow>
   \<not> has_nonpositive (STOCK_DATA (final (run xs w)))"
proof (induction xs arbitrary: w)
  case Nil
  then show ?case by simp
next
  case (Cons x xs)
  from Cons.prems have x: "brings_none x w" by simp
  have stepped: "\<not> has_nonpositive (STOCK_DATA (final (step x w)))"
    using Cons.prems(1) x by (rule step_brings_none)
  show ?case
  proof (cases "step x w")
    case (Inl ew)
    with stepped show ?thesis by simp
  next
    case (Inr w')
    with stepped Cons.prems(2) have "\<not> has_nonpositive (STOCK_DATA w')" "admissible xs w'"
      by simp_all
    then have "\<not> has_nonpositive (STOCK_DATA (final (run xs w')))"
      by (rule Cons.IH)
    with Inr show ?thesis by simp
  qed
qed

text \<open>
  Claim C1, as the code has it. Start from the empty mapping, on any file system, and
  run any sequence of \<^verbatim>\<open>add_item\<close>, \<^verbatim>\<open>remove_item\<close>, \<^verbatim>\<open>save_data\<close> and
  \<^verbatim>\<open>load_data\<close> calls in which no \<^verbatim>\<open>add_item\<close> call stores a sum at or below 0 and no
  \<^verbatim>\<open>load_data\<close> call decodes a document with a quantity at or below 0. Then, when the
  run ends (at its last call, or at the exception that stops it), no entry of
  \<^verbatim>\<open>STOCK_DATA\<close> has a quantity at or below 0. The calls of \<^verbatim>\<open>remove_item\<close> and
  \<^verbatim>\<open>save_data\<close> are not restricted.
\<close>

theorem admissible_runs_keep_invariant:
  assumes "STOCK_DATA w = PDict []" and "admissible xs w"
  shows "\<not> has_nonpositive (STOCK_DATA (final (run xs w)))"
proof -
  have "\<not> has_nonpositive (STOCK_DATA w)"
    using assms(1) by simp
  then show ?thesis
    using assms(2) by (rule run_brings_none)
qed

text \<open>A run with an addition below 0 that leaves 7 in stock, on a disk with a file
  that holds a quantity of 0 and is never loaded; the last call raises.\<close>

theorem admissible_runs_keep_invariant_witness:
  "STOCK_DATA (initial \<lparr>nodes = [(''broken.json'', regular Malformed),
                                  (''old.json'', regular (JsonText (PDict [(''pear'', PInt 0)])))],
                        elsewhere = vacant\<rparr>) = PDict []
   \<and> admissible
        [AddItem (PStr ''apple'') (PInt 10), AddItem (PStr ''apple'') (PInt (- 3)),
         AddItem (PInt 123) (PStr ''ten''), RemoveItem (PStr ''apple'') (PInt 3),
         RemoveItem (PStr ''orange'') (PInt 1), SaveData ''inventory.json'',
         LoadData ''missing.json'', LoadData ''inventory.json'', LoadData ''broken.json'']
        (initial \<lparr>nodes = [(''broken.json'', regular Malformed),
                           (''old.json'', regular (JsonText (PDict [(''pear'', PInt 0)])))],
                  elsewhere = vacant\<rparr>)
   \<and> \<not> has_nonpositive (STOCK_DATA (final (run
        [AddItem (PStr ''apple'') (PInt 10), AddItem (PStr ''apple'') (PInt (- 3)),
         AddItem (PInt 123) (PStr ''ten''), RemoveItem (PStr ''apple'') (PInt 3),
         RemoveItem (PStr ''orange'') (PInt 1), SaveData ''inventory.json'',
         LoadData ''missing.json'', LoadData ''inventory.json'', LoadData ''broken.json'']
        (initial \<lparr>nodes = [(''broken.json'', regular Malformed),
                           (''old.json'', regular (JsonText (PDict [(''pear'', PInt 0)])))],
                  elsewhere = vacant\<rparr>))))
   \<and> STOCK_DATA (final (run
        [AddItem (PStr ''apple'') (PInt 10), AddItem (PStr ''apple'') (PInt (- 3)),
         AddItem (PInt 123) (PStr ''ten''), RemoveItem (PStr ''apple'') (PInt 3),
         RemoveItem (PStr ''orange'') (PInt 1), SaveData ''inventory.json'',
         LoadData ''missing.json'', LoadData ''inventory.json'', LoadData ''broken.json'']
        (initial \<lparr>nodes = [(''broken.json'', regular Malformed),
                           (''old.json'', regular (JsonText (PDict [(''pear'', PInt 0)])))],
                  elsewhere = vacant\<rparr>))) = PDict [(''apple'', PInt 4)]"
proof -
  let ?fs = "\<lparr>nodes = [(''broken.json'', regular Malformed),
                      (''old.json'', regular (JsonText (PDict [(''pear'', PInt 0)])))],
             elsewhere = vacant\<rparr>"
  let ?xs = "[AddItem (PStr ''apple'') (PInt 10), AddItem (PStr ''apple'') (PInt (- 3)),
         AddItem (PInt 123) (PStr ''ten''), RemoveItem (PStr ''apple'') (PInt 3),
         RemoveItem (PStr ''orange'') (PInt 1), SaveData ''inventory.json'',
         LoadData ''missing.json'', LoadData ''inventory.json'', LoadData ''broken.json'']"
  have h1: "STOCK_DATA (initial ?fs) = PDict []" by (simp add: initial_def)
  have h2: "admissible ?xs (initial ?fs)"
    by (simp add: initial_def add_item_def remove_item_def remove_body_def save_data_def
          load_data_def write_json_def read_json_def json_dump_def json_load_def node_at_def
          set_node_def vacant_def regular_def logging_def not_found_def Let_def ndigits.simps)
  have stock: "STOCK_DATA (final (run ?xs (initial ?fs))) = PDict [(''apple'', PInt 4)]"
    by (simp add: initial_def add_item_def remove_item_def remove_body_def save_data_def
          load_data_def write_json_def read_json_def json_dump_def json_load_def node_at_def
          set_node_def vacant_def regular_def logging_def not_found_def Let_def ndigits.simps)
  show ?thesis
    using h1 h2 stock admissible_runs_keep_invariant [OF h1 h2] by blast
qed

text \<open>
  Claim C1, as stated, fails in the scenario it names. \<^verbatim>\<open>add_item\<close> has no test of
  the sign of its quantity: \<^verbatim>\<open>add_item("banana", -2)\<close> on a mapping without the key
  stores \<open>0 + (-2)\<close>, and nothing removes the entry afterwards. After the three calls
  of the scenario \<^verbatim>\<open>get_qty("apple")\<close> is 7 and the key \<^verbatim>\<open>banana\<close> is present with
  the quantity \<open>-2\<close>. It fails as well when \<^verbatim>\<open>load_data\<close> reads a file that holds a
  quantity of 0: the call assigns what the file holds, without looking at the
  quantities.
\<close>

theorem scenario_keeps_banana:
  "run [AddItem (PStr ''apple'') (PInt 10), AddItem (PStr ''banana'') (PInt (- 2)),
        RemoveItem (PStr ''apple'') (PInt 3)] (initial empty_disk) =
     Inr \<lparr>STOCK_DATA = PDict [(''apple'', PInt 7), (''banana'', PInt (- 2))],
          log = [(INFO, Fmt ''Added %d of %s'' [PInt 10, PStr ''apple'']),
                 (INFO, Fmt ''Added %d of %s'' [PInt (- 2), PStr ''banana'']),
                 (INFO, Fmt ''Removed %d of %s'' [PInt 3, PStr ''apple''])],
          disk = empty_disk, max_str_digits = 4300\<rparr>
   \<and> has_nonpositive (PDict [(''apple'', PInt 7), (''banana'', PInt (- 2))])
   \<and> load_data ''inventory.json''
        (initial \<lparr>nodes = [(''inventory.json'', regular (JsonText (PDict [(''pear'', PInt 0)])))],
                  elsewhere = vacant\<rparr>) =
      Inr \<lparr>STOCK_DATA = PDict [(''pear'', PInt 0)],
           log = [(INFO, Fmt ''Loaded inventory from %s'' [PStr ''inventory.json''])],
           disk = \<lparr>nodes = [(''inventory.json'',
                              regular (JsonText (PDict [(''pear'', PInt 0)])))],
                   elsewhere = vacant\<rparr>,
           max_str_digits = 4300\<rparr>
   \<and> has_nonpositive (PDict [(''pear'', PInt 0)])"
  by (simp add: initial_def add_item_def remove_item_def remove_body_def logging_def
        load_data_def read_json_def json_load_def node_at_def regular_def ndigits.simps)

section \<open>The run of \<^verbatim>\<open>main\<close>\<close>

text \<open>On a disk without files, where the default path can be written, \<^verbatim>\<open>main\<close> ends
  with \<^verbatim>\<open>{apple: 7, banana: -2}\<close> in \<^verbatim>\<open>STOCK_DATA\<close>, and its call of
  \<^verbatim>\<open>check_low_items()\<close> on that mapping lists \<^verbatim>\<open>banana\<close>.\<close>

lemma main_stock:
  "STOCK_DATA (final (run main_ops (initial empty_disk))) =
     PDict [(''apple'', PInt 7), (''banana'', PInt (- 2))]"
  by (simp add: main_ops_def INVENTORY_FILE_def initial_def empty_disk_def add_item_def
        remove_item_def remove_body_def save_data_def load_data_def write_json_def
        read_json_def json_dump_def json_load_def node_at_def set_node_def vacant_def
        logging_def not_found_def Let_def ndigits.simps)

lemma main_low_items:
  "check_low_items 5 \<lparr>STOCK_DATA = PDict [(''apple'', PInt 7), (''banana'', PInt (- 2))],
                       log = [], disk = empty_disk, max_str_digits = 4300\<rparr> = Inr [''banana'']"
  by (simp add: check_low_items_def)

end
